theory Spec2Isabelle
  imports Complex_Main
begin

section \<open>Python values\<close>

text \<open>
  The program is dynamically typed: a quantity, a price or a delta can be any Python
  object. The values that the checks of the program tell apart are modelled by
  \<open>pyval\<close>. A float is modelled by the real number it denotes, or by one of
  the three special floats. An object reference is a natural number (an address).
\<close>

type_synonym ref = nat

datatype pyfloat = Finite real | PosInf | NegInf | NaN

datatype pyval =
    PNone
  | PBool bool
  | PInt int
  | PFloat pyfloat
  | PStr string
  | PProduct ref

text \<open>
  The exceptions the program raises, each with its message. A message that the source
  builds with an f-string is kept as its template, the interpolated part in braces.
\<close>

datatype pyerr = ValueError string | TypeError string | AttributeError string

text \<open>\<open>bool(v)\<close>: the truth value Python gives an object in \<open>not v\<close>.\<close>

fun truthy :: "pyval \<Rightarrow> bool" where
  "truthy PNone = False"
| "truthy (PBool b) = b"
| "truthy (PInt i) = (i \<noteq> 0)"
| "truthy (PFloat f) = (f \<noteq> Finite 0)"
| "truthy (PStr s) = (s \<noteq> [])"
| "truthy (PProduct r) = True"

text \<open>\<open>isinstance(v, int)\<close>: \<open>bool\<close> is a subclass of \<open>int\<close>.\<close>

fun isinstance_int :: "pyval \<Rightarrow> bool" where
  "isinstance_int (PBool b) = True"
| "isinstance_int (PInt i) = True"
| "isinstance_int v = False"

text \<open>\<open>isinstance(v, (int, float))\<close>.\<close>

fun isinstance_int_float :: "pyval \<Rightarrow> bool" where
  "isinstance_int_float (PFloat f) = True"
| "isinstance_int_float v = isinstance_int v"

text \<open>
  The integer an instance of \<open>int\<close> denotes in arithmetic and comparisons
  (\<open>True\<close> is 1, \<open>False\<close> is 0). It is only applied to instances of \<open>int\<close>.
\<close>

fun int_of :: "pyval \<Rightarrow> int" where
  "int_of (PInt i) = i"
| "int_of (PBool b) = (if b then 1 else 0)"
| "int_of v = 0"

text \<open>
  \<open>v > n\<close> and \<open>v <= n\<close> for an integer \<open>n\<close>. Numbers compare by value, a
  comparison with NaN is false, and every other object raises TypeError.
\<close>

fun py_gt :: "pyval \<Rightarrow> int \<Rightarrow> pyerr + bool" where
  "py_gt (PInt i) n = Inr (n < i)"
| "py_gt (PBool b) n = Inr (n < int_of (PBool b))"
| "py_gt (PFloat (Finite x)) n = Inr (of_int n < x)"
| "py_gt (PFloat PosInf) n = Inr True"
| "py_gt (PFloat NegInf) n = Inr False"
| "py_gt (PFloat NaN) n = Inr False"
| "py_gt v n = Inl (TypeError ''> not supported between instances of {type} and int'')"

fun py_le :: "pyval \<Rightarrow> int \<Rightarrow> pyerr + bool" where
  "py_le (PInt i) n = Inr (i \<le> n)"
| "py_le (PBool b) n = Inr (int_of (PBool b) \<le> n)"
| "py_le (PFloat (Finite x)) n = Inr (x \<le> of_int n)"
| "py_le (PFloat PosInf) n = Inr False"
| "py_le (PFloat NegInf) n = Inr True"
| "py_le (PFloat NaN) n = Inr False"
| "py_le v n = Inl (TypeError ''<= not supported between instances of {type} and int'')"

section \<open>Strings: \<open>str.title\<close> and \<open>str.strip\<close>\<close>

text \<open>
  Names and categories are normalised with \<open>title()\<close> and \<open>strip()\<close>. A Python
  string is modelled by a \<open>string\<close> of ASCII characters, and \<open>is_ascii\<close> says
  that every character of a string is below 128. On such strings \<open>title\<close> and
  \<open>strip\<close> are Python's: the cased characters are the letters A-Z and a-z, and the
  whitespace characters are those for which \<open>str.isspace\<close> holds below 128. On a
  string that is not ASCII they are not Python's (\<open>str.strip\<close> also strips
  U+0085 and U+00A0, \<open>str.title\<close> also cases the letters beyond ASCII), so what
  is stated about a normalised name or category is stated for ASCII input.
\<close>

definition is_ascii :: "string \<Rightarrow> bool" where
  "is_ascii s = list_all (\<lambda>c. (of_char c :: nat) < 128) s"

definition is_upper :: "char \<Rightarrow> bool" where
  "is_upper c = (65 \<le> (of_char c :: nat) \<and> (of_char c :: nat) \<le> 90)"

definition is_lower :: "char \<Rightarrow> bool" where
  "is_lower c = (97 \<le> (of_char c :: nat) \<and> (of_char c :: nat) \<le> 122)"

definition to_upper :: "char \<Rightarrow> char" where
  "to_upper c = (if is_lower c then char_of ((of_char c :: nat) - 32) else c)"

definition to_lower :: "char \<Rightarrow> char" where
  "to_lower c = (if is_upper c then char_of ((of_char c :: nat) + 32) else c)"

definition is_space :: "char \<Rightarrow> bool" where
  "is_space c = ((9 \<le> (of_char c :: nat) \<and> (of_char c :: nat) \<le> 13)
                 \<or> (28 \<le> (of_char c :: nat) \<and> (of_char c :: nat) \<le> 32))"

text \<open>
  \<open>title_from prev s\<close>: the loop of \<open>str.title\<close>, where \<open>prev\<close> says that
  the previous character was cased. A cased character after an uncased one is put in
  upper case, a cased character after a cased one in lower case.
\<close>

fun title_from :: "bool \<Rightarrow> string \<Rightarrow> string" where
  "title_from prev [] = []"
| "title_from prev (c # cs) =
     (if is_lower c \<or> is_upper c
      then (if prev then to_lower c else to_upper c) # title_from True cs
      else c # title_from False cs)"

definition title :: "string \<Rightarrow> string" where
  "title s = title_from False s"

definition strip :: "string \<Rightarrow> string" where
  "strip s = rev (dropWhile is_space (rev (dropWhile is_space s)))"

section \<open>Products and the catalog registry\<close>

text \<open>
  A \<open>Product\<close> object and its attributes. \<open>quantity\<close> holds an instance of
  \<open>int\<close>, kept as the integer it denotes. The property \<open>in_cart\<close> has a setter
  that assigns the attribute \<open>_incart\<close> and a getter that reads the attribute
  \<open>_in_cart\<close>: both attributes are fields, and \<open>None\<close> says that the object
  has no such attribute. The id is the decimal string of a counter; the model keeps
  the counter's value, since \<open>str\<close> is injective on integers.
\<close>

record product =
  name :: string
  quantity :: int
  price :: pyval
  product_id :: int
  parent_id :: int
  category :: string
  attr_incart :: "bool option"
  attr_in_cart :: "bool option"

text \<open>An \<open>Order\<close> object: \<open>_products\<close> holds references to products.\<close>

record order =
  o_products :: "ref list"
  o_id :: int
  created_date :: string
  checkout_date :: "string option"
  checkout_status :: bool

text \<open>
  The state of the process: the two heaps of objects, the class attributes
  \<open>Product.products\<close>, \<open>Product._id_counter\<close>, \<open>Order.orders\<close> and
  \<open>Order._order_id\<close> (a counter is \<open>None\<close> until the class has the attribute),
  and the lines printed so far.
\<close>

record state =
  pheap :: "ref \<Rightarrow> product"
  next_ref :: ref
  products :: "ref list"
  id_counter :: "int option"
  oheap :: "ref \<Rightarrow> order"
  next_oref :: ref
  orders :: "ref list"
  order_id_counter :: "int option"
  printed :: "string list"

type_synonym 'a result = "(pyerr + 'a) \<times> state"

definition print_line :: "string \<Rightarrow> state \<Rightarrow> state" where
  "print_line l s = s\<lparr>printed := printed s @ [l]\<rparr>"

subsection \<open>Python's \<open>in\<close>, \<open>list.index\<close> and \<open>list.pop\<close>\<close>

text \<open>
  \<open>Product.__eq__\<close> holds when the ids are equal or the parent ids are equal;
  \<open>Product.__ne__\<close> holds when the parent ids differ.
\<close>

definition product_eq :: "state \<Rightarrow> ref \<Rightarrow> ref \<Rightarrow> bool" where
  "product_eq s a b =
     (product_id (pheap s a) = product_id (pheap s b) \<or> parent_id (pheap s a) = parent_id (pheap s b))"

definition product_ne :: "state \<Rightarrow> ref \<Rightarrow> ref \<Rightarrow> bool" where
  "product_ne s a b = (parent_id (pheap s a) \<noteq> parent_id (pheap s b))"

text \<open>
  \<open>x in xs\<close> and \<open>xs.index(x)\<close> match an element that is the object \<open>x\<close>
  itself or that \<open>__eq__\<close> makes equal to it; \<open>index\<close> returns the first
  such position and raises ValueError when there is none.
\<close>

definition matches :: "state \<Rightarrow> ref \<Rightarrow> ref \<Rightarrow> bool" where
  "matches s x e = (e = x \<or> product_eq s e x)"

definition contains :: "state \<Rightarrow> ref \<Rightarrow> ref list \<Rightarrow> bool" where
  "contains s x xs = list_ex (matches s x) xs"

fun first_index :: "('a \<Rightarrow> bool) \<Rightarrow> 'a list \<Rightarrow> nat option" where
  "first_index P [] = None"
| "first_index P (x # xs) = (if P x then Some 0 else map_option Suc (first_index P xs))"

definition index :: "state \<Rightarrow> ref \<Rightarrow> ref list \<Rightarrow> nat option" where
  "index s x xs = first_index (matches s x) xs"

definition pop :: "nat \<Rightarrow> 'a list \<Rightarrow> 'a list" where
  "pop i xs = take i xs @ drop (Suc i) xs"

subsection \<open>Construction, setters and getters\<close>

text \<open>\<open>Product.generate_id\<close>: 100000 at the first call, one more at each later call.\<close>

definition generate_id :: "state \<Rightarrow> int \<times> state" where
  "generate_id s =
     (case id_counter s of
        None \<Rightarrow> (100000, s\<lparr>id_counter := Some 100000\<rparr>)
      | Some c \<Rightarrow> (c + 1, s\<lparr>id_counter := Some (c + 1)\<rparr>))"

text \<open>
  \<open>Product.__init__(name, category, price, quantity)\<close>. The statements run in the
  source's order: the name (title-cased by the constructor, then checked, title-cased
  and stripped by the setter), the quantity, the price, the id, the parent id, the
  category, the cart flag, and the registration. The setters' guards are
  \<open>not v or not isinstance(v, ...)\<close>. A constructor that raises leaves an object
  nobody holds, so the object is put on the heap when the constructor succeeds.
\<close>

definition Product_init :: "string \<Rightarrow> string \<Rightarrow> pyval \<Rightarrow> pyval \<Rightarrow> state \<Rightarrow> ref result" where
  "Product_init nm cat pr qty s =
     (if title nm = [] then (Inl (ValueError ''Missing product name''), s)
      else if \<not> (truthy qty \<and> isinstance_int qty)
        then (Inl (ValueError ''Missing or invalid product quantity''), s)
      else if \<not> (truthy pr \<and> isinstance_int_float pr)
        then (Inl (ValueError ''Missing or invalid product price''), s)
      else (case generate_id s of (i, s1) \<Rightarrow>
        if cat = [] then (Inl (ValueError ''Missing product category''), s1)
        else
          let self = next_ref s1;
              obj = \<lparr>name = strip (title (title nm)), quantity = int_of qty, price = pr,
                     product_id = i, parent_id = i, category = strip (title cat),
                     attr_incart = Some False, attr_in_cart = None\<rparr>
          in (Inr self, s1\<lparr>pheap := (pheap s1)(self := obj), next_ref := Suc self,
                             products := products s1 @ [self]\<rparr>)))"

text \<open>The setter of \<open>quantity\<close> on an existing object.\<close>

definition set_quantity :: "ref \<Rightarrow> pyval \<Rightarrow> state \<Rightarrow> unit result" where
  "set_quantity self v s =
     (if \<not> (truthy v \<and> isinstance_int v)
      then (Inl (ValueError ''Missing or invalid product quantity''), s)
      else (Inr (), s\<lparr>pheap := (pheap s)(self := (pheap s self)\<lparr>quantity := int_of v\<rparr>)\<rparr>))"

text \<open>The getter of \<open>in_cart\<close> returns \<open>self._in_cart\<close>.\<close>

definition get_in_cart :: "product \<Rightarrow> pyerr + bool" where
  "get_in_cart p =
     (case attr_in_cart p of
        None \<Rightarrow> Inl (AttributeError ''Product object has no attribute _in_cart'')
      | Some b \<Rightarrow> Inr b)"

text \<open>The setter of \<open>in_cart\<close> assigns \<open>self._incart\<close>.\<close>

definition set_in_cart :: "ref \<Rightarrow> pyval \<Rightarrow> state \<Rightarrow> unit result" where
  "set_in_cart self v s =
     (case v of
        PBool b \<Rightarrow> (Inr (), s\<lparr>pheap := (pheap s)(self := (pheap s self)\<lparr>attr_incart := Some b\<rparr>)\<rparr>)
      | _ \<Rightarrow> (Inl (ValueError ''Missing or invalid product cart status''), s))"

text \<open>\<open>Product.delete_product(prod)\<close>.\<close>

definition delete_product :: "ref \<Rightarrow> state \<Rightarrow> unit result" where
  "delete_product p s =
     (if \<not> contains s p (products s) then (Inl (ValueError ''Product does not exist''), s)
      else (case index s p (products s) of
              None \<Rightarrow> (Inl (ValueError ''x is not in list''), s)
            | Some idx \<Rightarrow> (Inr (), s\<lparr>products := pop idx (products s)\<rparr>)))"

subsection \<open>\<open>__add__\<close> and \<open>__sub__\<close>\<close>

text \<open>
  \<open>self + other\<close>. An integer is added to \<open>_quantity\<close> directly; the quantity of
  another product goes through the setter.
\<close>

definition add_op :: "ref \<Rightarrow> pyval \<Rightarrow> state \<Rightarrow> ref result" where
  "add_op self other s =
     (case other of
        PProduct r \<Rightarrow>
          if product_ne s self r
          then (Inl (TypeError ''Cannot add Products of different names, categories, or price''), s)
          else (case set_quantity self (PInt (quantity (pheap s self) + quantity (pheap s r))) s of
                  (Inl e, s1) \<Rightarrow> (Inl e, s1)
                | (Inr u, s1) \<Rightarrow> (Inr self, s1))
      | _ \<Rightarrow>
          if isinstance_int other
          then (Inr self, s\<lparr>pheap := (pheap s)(self := (pheap s self)
                  \<lparr>quantity := quantity (pheap s self) + int_of other\<rparr>)\<rparr>)
          else (Inl (TypeError ''Cannot add items of different types''), s))"

text \<open>
  The two branches of \<open>self - other\<close> (an integer, or the quantity of another
  product) run the same statements on the amount \<open>n\<close>.
\<close>

definition sub_amount :: "ref \<Rightarrow> int \<Rightarrow> state \<Rightarrow> ref option result" where
  "sub_amount self n s =
     (if quantity (pheap s self) < n
      then (Inl (ValueError ''Cannot subtract more than the available quantity''), s)
      else if n = quantity (pheap s self)
      then (case delete_product self s of
              (Inl e, s1) \<Rightarrow> (Inl e, s1)
            | (Inr u, s1) \<Rightarrow> (Inr None, s1))
      else (case set_quantity self (PInt (quantity (pheap s self) - n)) s of
              (Inl e, s1) \<Rightarrow> (Inl e, s1)
            | (Inr u, s1) \<Rightarrow> (Inr (Some self), s1)))"

definition sub_op :: "ref \<Rightarrow> pyval \<Rightarrow> state \<Rightarrow> ref option result" where
  "sub_op self other s =
     (case other of
        PProduct r \<Rightarrow>
          if product_ne s self r
          then (Inl (TypeError ''Cannot add Products of different types''), s)
          else sub_amount self (quantity (pheap s r)) s
      | _ \<Rightarrow>
          if isinstance_int other then sub_amount self (int_of other) s
          else (Inl (TypeError ''Cannot subtract items of different types''), s))"

subsection \<open>Inventory methods and split\<close>

text \<open>
  \<open>add_inventory(value)\<close> under the decorator \<open>validate_product\<close>. The guard is
  \<open>not isinstance(value, int) and value <= 0\<close>: the comparison is evaluated only
  when the value is not an instance of \<open>int\<close>.
\<close>

definition add_inventory :: "ref \<Rightarrow> pyval \<Rightarrow> state \<Rightarrow> ref result" where
  "add_inventory self v s =
     (if \<not> contains s self (products s)
      then (Inl (ValueError ''Unable to update product inventory. Product does not exist''), s)
      else if isinstance_int v then add_op self v s
      else (case py_le v 0 of
              Inl e \<Rightarrow> (Inl e, s)
            | Inr b \<Rightarrow> if b then (Inl (ValueError ''Invalid quantity''), s) else add_op self v s))"

text \<open>
  \<open>remove_inventory(value)\<close> under \<open>validate_product\<close>. The guard is
  \<open>not isinstance(value, int) or value <= 0 or value > self.quantity\<close>.
\<close>

definition remove_inventory :: "ref \<Rightarrow> pyval \<Rightarrow> state \<Rightarrow> ref option result" where
  "remove_inventory self v s =
     (if \<not> contains s self (products s)
      then (Inl (ValueError ''Unable to update product inventory. Product does not exist''), s)
      else if \<not> isinstance_int v then (Inl (ValueError ''Invalid quantity''), s)
      else if int_of v \<le> 0 then (Inl (ValueError ''Invalid quantity''), s)
      else if quantity (pheap s self) < int_of v then (Inl (ValueError ''Invalid quantity''), s)
      else sub_op self v s)"

text \<open>
  \<open>new(qty, update_original)\<close>, the split. \<open>new_try\<close> is the body of the
  \<open>try\<close> block; \<open>new\<close> adds the handler, which catches ValueError only,
  prints it and returns \<open>None\<close>.
\<close>

definition new_try :: "ref \<Rightarrow> pyval \<Rightarrow> bool \<Rightarrow> state \<Rightarrow> ref result" where
  "new_try self qty update_original s =
     (if \<not> truthy qty then (Inl (ValueError ''Invalid quantity''), s)
      else (case py_gt qty (quantity (pheap s self)) of
        Inl e \<Rightarrow> (Inl e, s)
      | Inr b \<Rightarrow>
          if b then (Inl (ValueError ''Invalid quantity''), s)
          else (case Product_init (name (pheap s self)) (category (pheap s self))
                       (price (pheap s self)) qty s of
            (Inl e, s1) \<Rightarrow> (Inl e, s1)
          | (Inr n, s1) \<Rightarrow>
              let s2 = s1\<lparr>pheap := (pheap s1)(n := (pheap s1 n)
                            \<lparr>parent_id := product_id (pheap s1 self)\<rparr>)\<rparr>
              in if update_original
                 then (case remove_inventory self qty s2 of
                         (Inl e, s3) \<Rightarrow> (Inl e, s3)
                       | (Inr r, s3) \<Rightarrow> (Inr n, s3))
                 else (Inr n, s2))))"

definition new :: "ref \<Rightarrow> pyval \<Rightarrow> bool \<Rightarrow> state \<Rightarrow> ref option result" where
  "new self qty update_original s =
     (case new_try self qty update_original s of
        (Inl e, s1) \<Rightarrow>
          (case e of
             ValueError m \<Rightarrow> (Inr None, print_line (''New Product Error: '' @ m) s1)
           | _ \<Rightarrow> (Inl e, s1))
      | (Inr n, s1) \<Rightarrow> (Inr (Some n), s1))"

section \<open>Orders\<close>

text \<open>
  The decorator \<open>order_validation\<close>: the error it raises, if any, before the
  decorated method runs. \<open>Order\<close> defines no \<open>__eq__\<close>, so membership in
  \<open>Order.orders\<close> is by identity.
\<close>

definition order_validation :: "ref \<Rightarrow> state \<Rightarrow> pyerr option" where
  "order_validation self s =
     (if checkout_status (oheap s self)
      then Some (ValueError ''Unable to edit order, you have already checked out!'')
      else if self \<notin> set (orders s) then Some (ValueError ''Order does not exist'')
      else None)"

text \<open>
  \<open>add_product(product, qty)\<close>. The stock check stands before the \<open>try\<close> block;
  \<open>add_product_try\<close> is the body of the block, and the handler catches ValueError
  only, prints it and returns \<open>None\<close>.
\<close>

definition add_product_try :: "ref \<Rightarrow> ref \<Rightarrow> pyval \<Rightarrow> state \<Rightarrow> ref result" where
  "add_product_try self product qty s =
     (case new product qty True s of
        (Inl e, s1) \<Rightarrow> (Inl e, s1)
      | (Inr None, s1) \<Rightarrow> (Inl (ValueError ''Unable to add product''), s1)
      | (Inr (Some n), s1) \<Rightarrow>
          (case set_in_cart n (PBool True) s1 of
             (Inl e, s2) \<Rightarrow> (Inl e, s2)
           | (Inr u, s2) \<Rightarrow>
               (Inr self, s2\<lparr>oheap := (oheap s2)(self := (oheap s2 self)
                                \<lparr>o_products := o_products (oheap s2 self) @ [n]\<rparr>)\<rparr>)))"

definition add_product :: "ref \<Rightarrow> ref \<Rightarrow> pyval \<Rightarrow> state \<Rightarrow> ref option result" where
  "add_product self product qty s =
     (case order_validation self s of
        Some e \<Rightarrow> (Inl e, s)
      | None \<Rightarrow>
          (case py_gt qty (quantity (pheap s product)) of
             Inl e \<Rightarrow> (Inl e, s)
           | Inr b \<Rightarrow>
               if b then (Inl (ValueError ''Only {product.quantity} items available''), s)
               else (case add_product_try self product qty s of
                       (Inl e, s1) \<Rightarrow>
                         (case e of
                            ValueError m \<Rightarrow>
                              (Inr None, print_line (''Product Addition Error: '' @ m) s1)
                          | _ \<Rightarrow> (Inl e, s1))
                     | (Inr r, s1) \<Rightarrow> (Inr (Some r), s1))))"

text \<open>\<open>remove_product(product)\<close>.\<close>

definition remove_product :: "ref \<Rightarrow> ref \<Rightarrow> state \<Rightarrow> ref result" where
  "remove_product self product s =
     (case order_validation self s of
        Some e \<Rightarrow> (Inl e, s)
      | None \<Rightarrow>
          if \<not> contains s product (o_products (oheap s self))
          then (Inl (ValueError ''Product not in order cart''), s)
          else (case index s product (o_products (oheap s self)) of
                  None \<Rightarrow> (Inl (ValueError ''x is not in list''), s)
                | Some idx \<Rightarrow>
                    (case set_in_cart product (PBool False) s of
                       (Inl e, s1) \<Rightarrow> (Inl e, s1)
                     | (Inr u, s1) \<Rightarrow>
                         (Inr self, s1\<lparr>oheap := (oheap s1)(self := (oheap s1 self)
                            \<lparr>o_products := pop idx (o_products (oheap s1 self))\<rparr>)\<rparr>))))"

text \<open>
  The lookup of \<open>update_product_quantity\<close>:
  \<open>next((p for p in Product.products if p.parent_id == product.parent_id and not p.in_cart), None)\<close>.
  The flag of a product is read only when its parent id matches.
\<close>

fun find_global :: "state \<Rightarrow> int \<Rightarrow> ref list \<Rightarrow> pyerr + ref option" where
  "find_global s pid [] = Inr None"
| "find_global s pid (p # ps) =
     (if parent_id (pheap s p) = pid
      then (case get_in_cart (pheap s p) of
              Inl e \<Rightarrow> Inl e
            | Inr b \<Rightarrow> if b then find_global s pid ps else Inr (Some p))
      else find_global s pid ps)"

text \<open>
  \<open>update_product_quantity(product, new_qty)\<close>. The guard on \<open>new_qty\<close> is
  \<open>not new_qty or new_qty <= 0 or not isinstance(new_qty, int) or new_qty == product.quantity\<close>,
  evaluated from left to right.
\<close>

definition update_product_quantity :: "ref \<Rightarrow> ref \<Rightarrow> pyval \<Rightarrow> state \<Rightarrow> ref result" where
  "update_product_quantity self product new_qty s =
     (case order_validation self s of
        Some e \<Rightarrow> (Inl e, s)
      | None \<Rightarrow>
        if \<not> contains s product (o_products (oheap s self))
        then (Inl (ValueError ''Product not in order cart''), s)
        else if \<not> truthy new_qty then (Inl (ValueError ''Enter a valid quantity''), s)
        else (case py_le new_qty 0 of
          Inl e \<Rightarrow> (Inl e, s)
        | Inr b \<Rightarrow>
          if b then (Inl (ValueError ''Enter a valid quantity''), s)
          else if \<not> isinstance_int new_qty then (Inl (ValueError ''Enter a valid quantity''), s)
          else if int_of new_qty = quantity (pheap s product)
            then (Inl (ValueError ''Enter a valid quantity''), s)
          else (case find_global s (parent_id (pheap s product)) (products s) of
            Inl e \<Rightarrow> (Inl e, s)
          | Inr None \<Rightarrow>
              (Inl (ValueError
                ''Original product {product.name} not found in global inventory. Cannot validate stock.''), s)
          | Inr (Some global_prod) \<Rightarrow>
              let stock_adjustment_amount = abs (quantity (pheap s product) - int_of new_qty) in
              if quantity (pheap s global_prod) < int_of new_qty
              then (Inl (ValueError
                ''Cannot set quantity to {new_qty} for {product.name}.Only {global_prod.quantity} items are available''), s)
              else if quantity (pheap s product) < int_of new_qty
              then (case set_quantity product new_qty s of
                      (Inl e, s1) \<Rightarrow> (Inl e, s1)
                    | (Inr u, s1) \<Rightarrow>
                        (case remove_inventory global_prod (PInt stock_adjustment_amount) s1 of
                           (Inl e, s2) \<Rightarrow> (Inl e, s2)
                         | (Inr r, s2) \<Rightarrow> (Inr self, s2)))
              else if int_of new_qty < quantity (pheap s product)
              then (case set_quantity product new_qty s of
                      (Inl e, s1) \<Rightarrow> (Inl e, s1)
                    | (Inr u, s1) \<Rightarrow>
                        (case add_inventory global_prod (PInt stock_adjustment_amount) s1 of
                           (Inl e, s2) \<Rightarrow> (Inl e, s2)
                         | (Inr r, s2) \<Rightarrow> (Inr self, s2)))
              else (Inr self, s))))"

text \<open>\<open>clear_products()\<close>: the setter of \<open>products\<close> accepts the empty list.\<close>

definition clear_products :: "ref \<Rightarrow> state \<Rightarrow> ref result" where
  "clear_products self s =
     (case order_validation self s of
        Some e \<Rightarrow> (Inl e, s)
      | None \<Rightarrow> (Inr self, s\<lparr>oheap := (oheap s)(self := (oheap s self)\<lparr>o_products := []\<rparr>)\<rparr>))"

text \<open>\<open>delete()\<close>.\<close>

definition delete :: "ref \<Rightarrow> state \<Rightarrow> unit result" where
  "delete self s =
     (case order_validation self s of
        Some e \<Rightarrow> (Inl e, s)
      | None \<Rightarrow>
          (case first_index (\<lambda>e. e = self) (orders s) of
             None \<Rightarrow> (Inl (ValueError ''x is not in list''), s)
           | Some idx \<Rightarrow> (Inr (), s\<lparr>orders := pop idx (orders s)\<rparr>)))"

text \<open>
  The property \<open>total_price\<close> raises when the order is not registered. Its sum and
  the text it formats only feed the printed line and the cache \<open>_total\<close>, which
  the model leaves out.
\<close>

definition total_price :: "ref \<Rightarrow> state \<Rightarrow> unit result" where
  "total_price self s =
     (if self \<notin> set (orders s) then (Inl (ValueError ''Order does not exist''), s)
      else (Inr (), s))"

text \<open>\<open>checkout()\<close>; \<open>today\<close> is \<open>str(date.today())\<close>.\<close>

definition checkout :: "string \<Rightarrow> ref \<Rightarrow> state \<Rightarrow> unit result" where
  "checkout today self s =
     (if checkout_status (oheap s self)
      then (Inl (ValueError ''Already checked out. Checkout date: {self._checkout_date}''), s)
      else if length (o_products (oheap s self)) = 0
      then (Inr (), print_line ''Unable to checkout. No product in cart'' s)
      else
        let s1 = s\<lparr>oheap := (oheap s)(self := (oheap s self)
                    \<lparr>checkout_date := Some today, checkout_status := True\<rparr>)\<rparr>
        in (case total_price self s1 of
              (Inl e, s2) \<Rightarrow> (Inl e, s2)
            | (Inr u, s2) \<Rightarrow>
                (Inr (), print_line
                   ''Check out successful. Order Number: {self.id}; Price: {self.total_price}'' s2)))"

text \<open>\<open>Order.order_id\<close>: 10000 at the first call, one more at each later call.\<close>

definition order_id :: "state \<Rightarrow> int \<times> state" where
  "order_id s =
     (case order_id_counter s of
        None \<Rightarrow> (10000, s\<lparr>order_id_counter := Some 10000\<rparr>)
      | Some c \<Rightarrow> (c + 1, s\<lparr>order_id_counter := Some (c + 1)\<rparr>))"

text \<open>
  \<open>Order.__init__(*products)\<close>. An initial item is a pair of a product and a
  value, a product, or anything else; \<open>add_initial\<close> is the loop over the items,
  which runs after the order has been registered.
\<close>

datatype init_item = ItemPair ref pyval | ItemProduct ref | ItemOther

fun add_initial :: "ref \<Rightarrow> init_item list \<Rightarrow> state \<Rightarrow> unit result" where
  "add_initial self [] s = (Inr (), s)"
| "add_initial self (ItemPair p q # items) s =
     (if isinstance_int q
      then (case add_product self p q s of
              (Inl e, s1) \<Rightarrow> (Inl e, s1)
            | (Inr r, s1) \<Rightarrow> add_initial self items s1)
      else (Inl (TypeError
              ''Initial products must be Product objects or (Product, quantity) tuples.''), s))"
| "add_initial self (ItemProduct p # items) s =
     (case add_product self p (PInt 1) s of
        (Inl e, s1) \<Rightarrow> (Inl e, s1)
      | (Inr r, s1) \<Rightarrow> add_initial self items s1)"
| "add_initial self (ItemOther # items) s =
     (Inl (TypeError
        ''Initial products must be Product objects or (Product, quantity) tuples.''), s)"

definition Order_init :: "string \<Rightarrow> init_item list \<Rightarrow> state \<Rightarrow> ref result" where
  "Order_init today items s =
     (case order_id s of (i, s1) \<Rightarrow>
        let self = next_oref s1;
            obj = \<lparr>o_products = [], o_id = i, created_date = today,
                   checkout_date = None, checkout_status = False\<rparr>;
            s2 = s1\<lparr>oheap := (oheap s1)(self := obj), next_oref := Suc self,
                     orders := orders s1 @ [self]\<rparr>
        in (case add_initial self items s2 of
              (Inl e, s3) \<Rightarrow> (Inl e, s3)
            | (Inr u, s3) \<Rightarrow> (Inr self, s3)))"

section \<open>The listing of available products\<close>

text \<open>
  \<open>Customer.product_table\<close> builds its rows from
  \<open>[prod for prod in Product.products if not prod.in_cart]\<close>: the flag of every
  registered product is read, in order. A row holds the name, the category, the
  price, the quantity and the object.
\<close>

fun available :: "state \<Rightarrow> ref list \<Rightarrow> pyerr + ref list" where
  "available s [] = Inr []"
| "available s (p # ps) =
     (case get_in_cart (pheap s p) of
        Inl e \<Rightarrow> Inl e
      | Inr b \<Rightarrow>
          (case available s ps of
             Inl e \<Rightarrow> Inl e
           | Inr rs \<Rightarrow> Inr (if b then rs else p # rs)))"

definition product_table :: "state \<Rightarrow> pyerr + (string \<times> string \<times> pyval \<times> int \<times> ref) list" where
  "product_table s =
     (case available s (products s) of
        Inl e \<Rightarrow> Inl e
      | Inr rs \<Rightarrow>
          Inr (map (\<lambda>r. (name (pheap s r), category (pheap s r), price (pheap s r),
                         quantity (pheap s r), r)) rs))"

section \<open>Runs of the program\<close>

text \<open>
  The state of a fresh process: no object exists, the registries are empty and the
  classes have no counters yet. An address that holds no object yet reads as a blank
  record.
\<close>

definition blank_product :: product where
  "blank_product = \<lparr>name = [], quantity = 0, price = PNone, product_id = 0, parent_id = 0,
                     category = [], attr_incart = None, attr_in_cart = None\<rparr>"

definition blank_order :: order where
  "blank_order = \<lparr>o_products = [], o_id = 0, created_date = [], checkout_date = None,
                   checkout_status = False\<rparr>"

definition init :: state where
  "init = \<lparr>pheap = (\<lambda>r. blank_product), next_ref = 0, products = [], id_counter = None,
            oheap = (\<lambda>r. blank_order), next_oref = 0, orders = [], order_id_counter = None,
            printed = []\<rparr>"

text \<open>The calls a client of the classes can make, and the state each leaves.\<close>

datatype call =
    Call_Product string string pyval pyval
  | Call_new ref pyval bool
  | Call_add_inventory ref pyval
  | Call_remove_inventory ref pyval
  | Call_delete_product ref
  | Call_Order string "init_item list"
  | Call_add_product ref ref pyval
  | Call_remove_product ref ref
  | Call_update_product_quantity ref ref pyval
  | Call_clear_products ref
  | Call_delete ref
  | Call_checkout string ref

fun exec :: "call \<Rightarrow> state \<Rightarrow> state" where
  "exec (Call_Product nm cat pr qty) s = snd (Product_init nm cat pr qty s)"
| "exec (Call_new p qty upd) s = snd (new p qty upd s)"
| "exec (Call_add_inventory p v) s = snd (add_inventory p v s)"
| "exec (Call_remove_inventory p v) s = snd (remove_inventory p v s)"
| "exec (Call_delete_product p) s = snd (delete_product p s)"
| "exec (Call_Order today items) s = snd (Order_init today items s)"
| "exec (Call_add_product ord p qty) s = snd (add_product ord p qty s)"
| "exec (Call_remove_product ord p) s = snd (remove_product ord p s)"
| "exec (Call_update_product_quantity ord p v) s = snd (update_product_quantity ord p v s)"
| "exec (Call_clear_products ord) s = snd (clear_products ord s)"
| "exec (Call_delete ord) s = snd (delete ord s)"
| "exec (Call_checkout today ord) s = snd (checkout today ord s)"

text \<open>The states a process can be in: the fresh state, and the state after a call.\<close>

inductive reachable :: "state \<Rightarrow> bool" where
  reachable_init: "reachable init"
| reachable_exec: "reachable s \<Longrightarrow> reachable (exec c s)"

section \<open>Invariants and a scenario\<close>

text \<open>Every product of the registry has a strictly positive quantity.\<close>

definition positive_quantities :: "state \<Rightarrow> bool" where
  "positive_quantities s = list_all (\<lambda>r. 0 < quantity (pheap s r)) (products s)"

text \<open>A value is a negative integer; a call passes a negative integer as a quantity.\<close>

definition negative_int :: "pyval \<Rightarrow> bool" where
  "negative_int v = (isinstance_int v \<and> int_of v < 0)"

fun negative_item :: "init_item \<Rightarrow> bool" where
  "negative_item (ItemPair p q) = negative_int q"
| "negative_item it = False"

fun negative_quantity_arg :: "call \<Rightarrow> bool" where
  "negative_quantity_arg (Call_Product nm cat pr qty) = negative_int qty"
| "negative_quantity_arg (Call_new p qty upd) = negative_int qty"
| "negative_quantity_arg (Call_add_inventory p v) = negative_int v"
| "negative_quantity_arg (Call_add_product ord p qty) = negative_int qty"
| "negative_quantity_arg (Call_Order today items) = list_ex negative_item items"
| "negative_quantity_arg c = False"

text \<open>
  The id that \<open>generate_id\<close> returns at its next call.
\<close>

definition next_id :: "state \<Rightarrow> int" where
  "next_id s = (case id_counter s of None \<Rightarrow> 100000 | Some c \<Rightarrow> c + 1)"

text \<open>
  What holds of the objects in every run: no object has the attribute \<open>_in_cart\<close>,
  every registered product has been allocated, the id of every object is below the
  next id, the parent id of an object is at most its id, and the registry lists its
  products by strictly increasing id.
\<close>

definition well_formed :: "state \<Rightarrow> bool" where
  "well_formed s = ((\<forall>r. attr_in_cart (pheap s r) = None)
         \<and> (\<forall>r \<in> set (products s). r < next_ref s)
         \<and> (\<forall>r. product_id (pheap s r) < next_id s)
         \<and> (\<forall>r. parent_id (pheap s r) \<le> product_id (pheap s r))
         \<and> sorted_wrt (\<lambda>a b. product_id (pheap s a) < product_id (pheap s b)) (products s))"

text \<open>
  \<open>Product.products.index(p)\<close> is the position of the object \<open>p\<close> itself: no
  earlier entry of the registry is equal to \<open>p\<close> under \<open>__eq__\<close>.
\<close>

definition index_finds_self :: "state \<Rightarrow> ref \<Rightarrow> bool" where
  "index_finds_self s p = (index s p (products s) = first_index (\<lambda>e. e = p) (products s))"

text \<open>
  The scenario of the specification: the catalog holds 50 mice, an order is opened,
  5 mice are added to it (object 0 is the catalog product, object 1 the cart line),
  and the order is checked out.
\<close>

definition catalog :: state where
  "catalog = exec (Call_Product ''Mouse'' ''Electronics'' (PFloat (Finite 30)) (PInt 50)) init"

definition open_order :: state where
  "open_order = exec (Call_Order ''2026-11-04'' []) catalog"

definition cart_of_five :: state where
  "cart_of_five = exec (Call_add_product 0 0 (PInt 5)) open_order"

definition checked_out :: state where
  "checked_out = exec (Call_checkout ''2026-11-04'' 0) cart_of_five"

definition already_checked_out :: pyerr where
  "already_checked_out = ValueError ''Unable to edit order, you have already checked out!''"

definition no_in_cart :: pyerr where
  "no_in_cart = AttributeError ''Product object has no attribute _in_cart''"

section \<open>Orders: checkout and the frozen order\<close>

text \<open>
  C7. On an order whose checkout flag is true, each of \<open>add_product\<close>,
  \<open>remove_product\<close>, \<open>update_product_quantity\<close>, \<open>clear_products\<close> and
  \<open>delete\<close> raises the error "already checked out" and returns the state it was
  given: the product list of the order and the catalog are unchanged. In particular an
  empty product list stays empty when \<open>add_product\<close> is called.
\<close>

theorem checked_out_order_rejects_mutators:
  assumes "checkout_status (oheap s self)"
  shows "add_product self p qty s = (Inl already_checked_out, s)
       \<and> remove_product self p s = (Inl already_checked_out, s)
       \<and> update_product_quantity self p qty s = (Inl already_checked_out, s)
       \<and> clear_products self s = (Inl already_checked_out, s)
       \<and> delete self s = (Inl already_checked_out, s)
       \<and> (o_products (oheap s self) = [] \<longrightarrow>
            o_products (oheap (snd (add_product self p qty s)) self) = [])"
  using assms
  by (simp add: add_product_def remove_product_def update_product_quantity_def
      clear_products_def delete_def order_validation_def already_checked_out_def)

theorem checked_out_order_rejects_mutators_witness:
  "checkout_status (oheap checked_out 0)
   \<and> add_product 0 0 (PInt 1) checked_out = (Inl already_checked_out, checked_out)
   \<and> remove_product 0 1 checked_out = (Inl already_checked_out, checked_out)
   \<and> update_product_quantity 0 1 (PInt 10) checked_out = (Inl already_checked_out, checked_out)
   \<and> clear_products 0 checked_out = (Inl already_checked_out, checked_out)
   \<and> delete 0 checked_out = (Inl already_checked_out, checked_out)"
proof -
  have h: "checkout_status (oheap checked_out 0)"
    by code_simp
  from checked_out_order_rejects_mutators [OF h, of 0 "PInt 1"]
    checked_out_order_rejects_mutators [OF h, of 1 "PInt 10"] h
  show ?thesis by simp
qed

text \<open>
  C9. \<open>checkout\<close> on an order that is already checked out raises an error that
  reports the checkout date and returns the state it was given. On an open order
  with an empty product list it prints the condition and changes nothing else: the
  order keeps its flag and its timestamp. Otherwise it sets the flag and records
  the date.
\<close>

theorem checkout_cases:
  "(checkout_status (oheap s self) \<longrightarrow>
      checkout today self s =
        (Inl (ValueError ''Already checked out. Checkout date: {self._checkout_date}''), s))
   \<and> (\<not> checkout_status (oheap s self) \<and> o_products (oheap s self) = [] \<longrightarrow>
      checkout today self s = (Inr (), print_line ''Unable to checkout. No product in cart'' s)
      \<and> oheap (snd (checkout today self s)) = oheap s)
   \<and> (\<not> checkout_status (oheap s self) \<and> o_products (oheap s self) \<noteq> [] \<longrightarrow>
      checkout_status (oheap (snd (checkout today self s)) self)
      \<and> checkout_date (oheap (snd (checkout today self s)) self) = Some today)"
  by (simp add: checkout_def total_price_def print_line_def Let_def)

theorem checkout_cases_witness:
  "checkout ''2026-11-05'' 0 checked_out =
     (Inl (ValueError ''Already checked out. Checkout date: {self._checkout_date}''), checked_out)
   \<and> checkout_date (oheap checked_out 0) = Some ''2026-11-04''
   \<and> checkout ''2026-11-05'' 0 open_order =
       (Inr (), print_line ''Unable to checkout. No product in cart'' open_order)
   \<and> checkout_status (oheap (snd (checkout ''2026-11-05'' 0 cart_of_five)) 0)
   \<and> checkout_date (oheap (snd (checkout ''2026-11-05'' 0 cart_of_five)) 0) = Some ''2026-11-05''"
proof -
  have h1: "checkout_status (oheap checked_out 0)"
    and h2: "checkout_date (oheap checked_out 0) = Some ''2026-11-04''"
    and h3: "\<not> checkout_status (oheap open_order 0) \<and> o_products (oheap open_order 0) = []"
    and h4: "\<not> checkout_status (oheap cart_of_five 0) \<and> o_products (oheap cart_of_five 0) \<noteq> []"
    by code_simp+
  from checkout_cases [of checked_out 0 "''2026-11-05''"]
    checkout_cases [of open_order 0 "''2026-11-05''"]
    checkout_cases [of cart_of_five 0 "''2026-11-05''"] h1 h2 h3 h4
  show ?thesis by simp
qed

text \<open>
  C10. \<open>clear_products\<close> on an open order that is registered returns the order and
  changes one thing: the product list of the order becomes empty. The heap of
  products, so every quantity, and the registry \<open>Product.products\<close> are the same
  after the call.
\<close>

theorem clear_products_frame:
  assumes "\<not> checkout_status (oheap s self)" and "self \<in> set (orders s)"
  shows "fst (clear_products self s) = Inr self
       \<and> o_products (oheap (snd (clear_products self s)) self) = []
       \<and> snd (clear_products self s) =
           s\<lparr>oheap := (oheap s)(self := (oheap s self)\<lparr>o_products := []\<rparr>)\<rparr>
       \<and> pheap (snd (clear_products self s)) = pheap s
       \<and> products (snd (clear_products self s)) = products s"
  using assms by (simp add: clear_products_def order_validation_def)

theorem clear_products_frame_witness:
  "o_products (oheap cart_of_five 0) = [1]
   \<and> fst (clear_products 0 cart_of_five) = Inr 0
   \<and> o_products (oheap (snd (clear_products 0 cart_of_five)) 0) = []
   \<and> products (snd (clear_products 0 cart_of_five)) = [0, 1]
   \<and> quantity (pheap (snd (clear_products 0 cart_of_five)) 0) = 45
   \<and> quantity (pheap (snd (clear_products 0 cart_of_five)) 1) = 5"
proof -
  have h1: "\<not> checkout_status (oheap cart_of_five 0)"
    and h2: "0 \<in> set (orders cart_of_five)"
    and h3: "o_products (oheap cart_of_five 0) = [1]"
    and h4: "products cart_of_five = [0, 1]"
    and h5: "quantity (pheap cart_of_five 0) = 45"
    and h6: "quantity (pheap cart_of_five 1) = 5"
    by code_simp+
  from clear_products_frame [OF h1 h2] h3 h4 h5 h6
  show ?thesis by simp
qed

section \<open>What holds in every run\<close>

text \<open>
  Each operation keeps \<open>well_formed\<close>: no operation assigns \<open>_in_cart\<close> or an
  id after construction, the registry only grows by a freshly allocated object whose id
  is the next id, the counter only grows, and a parent id is only ever set to the id of
  an existing object.
\<close>

lemma set_pop_subset: "x \<in> set (pop i xs) \<Longrightarrow> x \<in> set xs"
  by (auto simp: pop_def dest: in_set_takeD in_set_dropD)

lemma pop_Cons: "pop i (x # xs) = (case i of 0 \<Rightarrow> xs | Suc j \<Rightarrow> x # pop j xs)"
  by (simp add: pop_def split: nat.splits)

lemma sorted_wrt_pop: "sorted_wrt P xs \<Longrightarrow> sorted_wrt P (pop i xs)"
proof (induction xs arbitrary: i)
  case Nil
  then show ?case by (simp add: pop_def)
next
  case (Cons x xs)
  then show ?case
    by (auto simp: pop_Cons split: nat.splits dest: set_pop_subset)
qed

lemma generate_id_next: "generate_id s = (next_id s, s\<lparr>id_counter := Some (next_id s)\<rparr>)"
  by (simp add: generate_id_def next_id_def split: option.splits)

lemma well_formed_print_line: "well_formed (print_line l s) = well_formed s"
  by (simp add: well_formed_def print_line_def next_id_def)

lemma well_formed_oheap: "well_formed (s\<lparr>oheap := h\<rparr>) = well_formed s"
  by (simp add: well_formed_def next_id_def)

lemma well_formed_orders: "well_formed (s\<lparr>orders := xs\<rparr>) = well_formed s"
  by (simp add: well_formed_def next_id_def)

lemma well_formed_pheap:
  assumes w: "well_formed s"
    and h: "\<And>r. attr_in_cart (h r) = attr_in_cart (pheap s r)
                \<and> product_id (h r) = product_id (pheap s r)
                \<and> parent_id (h r) \<le> product_id (h r)"
  shows "well_formed (s\<lparr>pheap := h\<rparr>)"
proof -
  have "(\<lambda>a b. product_id (h a) < product_id (h b))
        = (\<lambda>a b. product_id (pheap s a) < product_id (pheap s b))"
    by (simp add: h)
  moreover have "\<And>r. parent_id (h r) \<le> product_id (pheap s r)"
    using h by metis
  ultimately show ?thesis
    using w h by (simp add: well_formed_def next_id_def)
qed

lemma well_formed_set_quantity: "set_quantity r v s = (res, s') \<Longrightarrow> well_formed s \<Longrightarrow> well_formed s'"
proof -
  assume a: "set_quantity r v s = (res, s')" and w: "well_formed s"
  have "well_formed (s\<lparr>pheap := (pheap s)(r := (pheap s r)\<lparr>quantity := int_of v\<rparr>)\<rparr>)"
    using w by (intro well_formed_pheap) (auto simp: well_formed_def)
  with a w show ?thesis
    by (auto simp: set_quantity_def split: if_splits)
qed

lemma well_formed_set_in_cart: "set_in_cart r v s = (res, s') \<Longrightarrow> well_formed s \<Longrightarrow> well_formed s'"
proof -
  assume a: "set_in_cart r v s = (res, s')" and w: "well_formed s"
  have "\<And>b. well_formed (s\<lparr>pheap := (pheap s)(r := (pheap s r)\<lparr>attr_incart := Some b\<rparr>)\<rparr>)"
    using w by (intro well_formed_pheap) (auto simp: well_formed_def)
  with a w show ?thesis
    by (auto simp: set_in_cart_def split: pyval.splits)
qed

lemma well_formed_delete_product: "delete_product p s = (res, s') \<Longrightarrow> well_formed s \<Longrightarrow> well_formed s'"
proof -
  assume a: "delete_product p s = (res, s')" and w: "well_formed s"
  have "\<And>i. well_formed (s\<lparr>products := pop i (products s)\<rparr>)"
    using w by (auto simp: well_formed_def next_id_def sorted_wrt_pop dest: set_pop_subset)
  with a w show ?thesis
    by (auto simp: delete_product_def split: if_splits option.splits)
qed

lemma well_formed_add_op: "add_op self other s = (res, s') \<Longrightarrow> well_formed s \<Longrightarrow> well_formed s'"
proof -
  assume a: "add_op self other s = (res, s')" and w: "well_formed s"
  have "\<And>q. well_formed (s\<lparr>pheap := (pheap s)(self := (pheap s self)\<lparr>quantity := q\<rparr>)\<rparr>)"
    using w by (intro well_formed_pheap) (auto simp: well_formed_def)
  with a w show ?thesis
    by (auto simp: add_op_def split: if_splits pyval.splits prod.splits sum.splits
        dest: well_formed_set_quantity)
qed

lemma well_formed_sub_amount: "sub_amount self n s = (res, s') \<Longrightarrow> well_formed s \<Longrightarrow> well_formed s'"
  by (auto simp: sub_amount_def split: if_splits prod.splits sum.splits
      dest: well_formed_set_quantity well_formed_delete_product)

lemma well_formed_sub_op: "sub_op self other s = (res, s') \<Longrightarrow> well_formed s \<Longrightarrow> well_formed s'"
  by (auto simp: sub_op_def split: if_splits pyval.splits dest: well_formed_sub_amount)

lemma well_formed_add_inventory: "add_inventory self v s = (res, s') \<Longrightarrow> well_formed s \<Longrightarrow> well_formed s'"
  by (auto simp: add_inventory_def split: if_splits sum.splits dest: well_formed_add_op)

lemma well_formed_remove_inventory: "remove_inventory self v s = (res, s') \<Longrightarrow> well_formed s \<Longrightarrow> well_formed s'"
  by (auto simp: remove_inventory_def split: if_splits dest: well_formed_sub_op)

lemma well_formed_alloc:
  assumes w: "well_formed s"
  shows "well_formed
          (s\<lparr>id_counter := Some (next_id s),
             pheap := (pheap s)(next_ref s := obj\<lparr>product_id := next_id s, parent_id := next_id s,
                                                  attr_in_cart := None\<rparr>),
             next_ref := Suc (next_ref s), products := products s @ [next_ref s]\<rparr>)"
proof -
  let ?h = "(pheap s)(next_ref s := obj\<lparr>product_id := next_id s, parent_id := next_id s,
                                          attr_in_cart := None\<rparr>)"
  have a: "\<forall>r. attr_in_cart (pheap s r) = None"
    and f: "\<forall>r \<in> set (products s). r < next_ref s"
    and n: "\<forall>r. product_id (pheap s r) < next_id s"
    and q: "\<forall>r. parent_id (pheap s r) \<le> product_id (pheap s r)"
    and o: "sorted_wrt (\<lambda>a b. product_id (pheap s a) < product_id (pheap s b)) (products s)"
    using w by (simp_all add: well_formed_def)
  have 1: "\<forall>r. attr_in_cart (?h r) = None"
    using a by simp
  have 2: "\<forall>r \<in> set (products s @ [next_ref s]). r < Suc (next_ref s)"
    using f by (auto simp: less_Suc_eq)
  have 3: "\<forall>r. product_id (?h r) < next_id s + 1"
    using n by (simp add: less_imp_le)
  have 4: "\<forall>r. parent_id (?h r) \<le> product_id (?h r)"
    using q by simp
  have nr: "next_ref s \<notin> set (products s)"
    using f by auto
  have old: "\<forall>r \<in> set (products s). ?h r = pheap s r"
    using nr by auto
  have "sorted_wrt (\<lambda>a b. product_id (?h a) < product_id (?h b)) (products s)"
    using o nr by (auto elim!: sorted_wrt_mono_rel [rotated])
  moreover have "\<forall>r \<in> set (products s). product_id (?h r) < product_id (?h (next_ref s))"
    using old n by simp
  ultimately have 5: "sorted_wrt (\<lambda>a b. product_id (?h a) < product_id (?h b))
                        (products s @ [next_ref s])"
    by (simp add: sorted_wrt_append)
  from 1 2 3 4 5 show ?thesis
    by (simp add: well_formed_def next_id_def)
qed

lemma well_formed_Product_init:
  assumes a: "Product_init nm cat pr qty s = (res, s')" and w: "well_formed s"
  shows "well_formed s'"
proof -
  have "\<forall>r. product_id (pheap s r) < next_id s + 1"
    using w by (simp add: well_formed_def less_imp_le)
  then have c: "well_formed (s\<lparr>id_counter := Some (next_id s)\<rparr>)"
    using w by (simp add: well_formed_def next_id_def)
  let ?obj = "\<lparr>name = strip (title (title nm)), quantity = int_of qty, price = pr,
               product_id = next_id s, parent_id = next_id s, category = strip (title cat),
               attr_incart = Some False, attr_in_cart = None\<rparr>"
  have "well_formed
          (s\<lparr>id_counter := Some (next_id s),
             pheap := (pheap s)(next_ref s := ?obj),
             next_ref := Suc (next_ref s), products := products s @ [next_ref s]\<rparr>)"
    using well_formed_alloc [OF w, of ?obj] by simp
  with a w c show ?thesis
    by (auto simp: Product_init_def generate_id_next Let_def split: if_splits)
qed

lemma Product_init_counter:
  "Product_init nm cat pr qty s = (Inr n, s') \<Longrightarrow> id_counter s' = Some (product_id (pheap s' n))"
  by (auto simp: Product_init_def generate_id_next Let_def split: if_splits)

lemma well_formed_new_try:
  assumes a: "new_try self qty upd s = (res, s')" and w: "well_formed s"
  shows "well_formed s'"
proof (cases "Product_init (name (pheap s self)) (category (pheap s self)) (price (pheap s self)) qty s")
  case (Pair r s1)
  have w1: "well_formed s1"
    using Pair w by (rule well_formed_Product_init)
  show ?thesis
  proof (cases r)
    case (Inl e)
    with a w w1 Pair show ?thesis
      by (auto simp: new_try_def split: if_splits sum.splits)
  next
    case (Inr n)
    define s2 where "s2 = s1\<lparr>pheap := (pheap s1)(n := (pheap s1 n)
                            \<lparr>parent_id := product_id (pheap s1 self)\<rparr>)\<rparr>"
    have "id_counter s1 = Some (product_id (pheap s1 n))"
      using Pair Inr by (simp add: Product_init_counter)
    then have "product_id (pheap s1 self) \<le> product_id (pheap s1 n)"
      using w1 by (fastforce simp: well_formed_def next_id_def)
    then have w2: "well_formed s2"
      unfolding s2_def using w1 by (intro well_formed_pheap) (auto simp: well_formed_def)
    have "well_formed (snd (remove_inventory self qty s2))"
      using w2 well_formed_remove_inventory by (metis prod.collapse)
    with a w w2 Pair Inr show ?thesis
      by (auto simp: new_try_def Let_def s2_def split: if_splits sum.splits prod.splits)
  qed
qed

lemma well_formed_new: "new self qty upd s = (res, s') \<Longrightarrow> well_formed s \<Longrightarrow> well_formed s'"
  by (auto simp: new_def well_formed_print_line split: prod.splits sum.splits pyerr.splits
      dest: well_formed_new_try)

lemma well_formed_add_product_try:
  "add_product_try self p qty s = (res, s') \<Longrightarrow> well_formed s \<Longrightarrow> well_formed s'"
  by (auto simp: add_product_try_def well_formed_oheap split: prod.splits sum.splits option.splits
      dest: well_formed_new well_formed_set_in_cart)

lemma well_formed_add_product:
  "add_product self p qty s = (res, s') \<Longrightarrow> well_formed s \<Longrightarrow> well_formed s'"
  by (auto simp: add_product_def well_formed_print_line
      split: prod.splits sum.splits option.splits if_splits pyerr.splits
      dest: well_formed_add_product_try)

lemma well_formed_remove_product:
  "remove_product self p s = (res, s') \<Longrightarrow> well_formed s \<Longrightarrow> well_formed s'"
  by (auto simp: remove_product_def well_formed_oheap
      split: prod.splits sum.splits option.splits if_splits
      dest: well_formed_set_in_cart)

lemma well_formed_update_product_quantity:
  "update_product_quantity self p v s = (res, s') \<Longrightarrow> well_formed s \<Longrightarrow> well_formed s'"
  by (auto simp: update_product_quantity_def Let_def
      split: prod.splits sum.splits option.splits if_splits
      dest: well_formed_set_quantity well_formed_remove_inventory well_formed_add_inventory)

lemma well_formed_clear_products:
  "clear_products self s = (res, s') \<Longrightarrow> well_formed s \<Longrightarrow> well_formed s'"
  by (auto simp: clear_products_def well_formed_oheap split: option.splits)

lemma well_formed_delete:
  "delete self s = (res, s') \<Longrightarrow> well_formed s \<Longrightarrow> well_formed s'"
  by (auto simp: delete_def well_formed_orders split: option.splits)

lemma well_formed_checkout:
  "checkout today self s = (res, s') \<Longrightarrow> well_formed s \<Longrightarrow> well_formed s'"
  by (auto simp: checkout_def total_price_def well_formed_oheap well_formed_print_line Let_def
      split: if_splits)

lemma well_formed_add_initial:
  "add_initial self items s = (res, s') \<Longrightarrow> well_formed s \<Longrightarrow> well_formed s'"
proof (induction self items s rule: add_initial.induct)
  case (2 self p q items s)
  then show ?case
    by (auto split: if_splits prod.splits sum.splits dest: well_formed_add_product)
next
  case (3 self p items s)
  then show ?case
    by (auto split: prod.splits sum.splits dest: well_formed_add_product)
qed simp_all

lemma well_formed_Order_init:
  "Order_init today items s = (res, s') \<Longrightarrow> well_formed s \<Longrightarrow> well_formed s'"
proof -
  assume a: "Order_init today items s = (res, s')" and w: "well_formed s"
  obtain i s1 where o: "order_id s = (i, s1)" by (cases "order_id s")
  then have w1: "well_formed s1"
    using w by (auto simp: order_id_def well_formed_def next_id_def split: option.splits)
  define s2 where "s2 = s1\<lparr>oheap := (oheap s1)(next_oref s1 :=
       \<lparr>o_products = [], o_id = i, created_date = today, checkout_date = None,
        checkout_status = False\<rparr>), next_oref := Suc (next_oref s1),
       orders := orders s1 @ [next_oref s1]\<rparr>"
  have w2: "well_formed s2"
    using w1 by (simp add: s2_def well_formed_def next_id_def)
  from a o have "snd (add_initial (next_oref s1) items s2) = s'"
    by (auto simp: Order_init_def Let_def s2_def split: prod.splits sum.splits)
  with w2 show ?thesis
    using well_formed_add_initial [of "next_oref s1" items s2] by (metis prod.collapse)
qed

lemma well_formed_exec: "well_formed s \<Longrightarrow> well_formed (exec c s)"
  by (cases c)
     (auto intro: well_formed_Product_init well_formed_new well_formed_add_inventory
        well_formed_remove_inventory well_formed_delete_product well_formed_Order_init
        well_formed_add_product well_formed_remove_product well_formed_update_product_quantity
        well_formed_clear_products well_formed_delete well_formed_checkout prod.collapse [symmetric])

lemma reachable_well_formed: "reachable s \<Longrightarrow> well_formed s"
  by (induction rule: reachable.induct)
     (simp_all add: well_formed_exec, simp add: well_formed_def init_def blank_product_def next_id_def)

lemma reachable_catalog: "reachable catalog"
  unfolding catalog_def by (intro reachable_exec reachable_init)

lemma reachable_cart_of_five: "reachable cart_of_five"
  unfolding cart_of_five_def open_order_def by (intro reachable_exec reachable_catalog)

section \<open>The cart flag\<close>

text \<open>
  With no object carrying \<open>_in_cart\<close>, the lookup of \<open>update_product_quantity\<close>
  raises at the first registered product of the lineage and the listing raises at the
  first registered product.
\<close>

lemma find_global_no_flag:
  "\<forall>r. attr_in_cart (pheap s r) = None \<Longrightarrow>
   find_global s pid ps =
     (if list_ex (\<lambda>e. parent_id (pheap s e) = pid) ps then Inl no_in_cart else Inr None)"
  by (induction ps) (auto simp: get_in_cart_def no_in_cart_def)

lemma available_no_flag:
  "\<forall>r. attr_in_cart (pheap s r) = None \<Longrightarrow> ps \<noteq> [] \<Longrightarrow> available s ps = Inl no_in_cart"
  by (cases ps) (auto simp: get_in_cart_def no_in_cart_def)

lemma update_never_returns:
  assumes "\<forall>r. attr_in_cart (pheap s r) = None"
  shows "fst (update_product_quantity ord p v s) \<noteq> Inr x"
proof -
  consider (a) "find_global s (parent_id (pheap s p)) (products s) = Inl no_in_cart"
    | (b) "find_global s (parent_id (pheap s p)) (products s) = Inr None"
    using find_global_no_flag [OF assms, of "parent_id (pheap s p)" "products s"]
    by (cases "list_ex (\<lambda>e. parent_id (pheap s e) = parent_id (pheap s p)) (products s)") simp_all
  then show ?thesis
  proof cases
    case a
    show ?thesis
      unfolding update_product_quantity_def a
      by (simp split: option.split sum.split)
  next
    case b
    show ?thesis
      unfolding update_product_quantity_def b
      by (simp split: option.split sum.split)
  qed
qed


lemma positive_int_guard:
  "isinstance_int v \<Longrightarrow> 0 < int_of v \<Longrightarrow> truthy v \<and> py_le v 0 = Inr False"
  by (cases v) (auto split: if_splits)

lemma update_raises_at_lookup:
  assumes a: "\<forall>r. attr_in_cart (pheap s r) = None"
    and v: "order_validation ord s = None" and c: "contains s p (o_products (oheap s ord))"
    and i: "isinstance_int v" and pos: "0 < int_of v" and ne: "int_of v \<noteq> quantity (pheap s p)"
    and l: "list_ex (\<lambda>e. parent_id (pheap s e) = parent_id (pheap s p)) (products s)"
  shows "update_product_quantity ord p v s = (Inl no_in_cart, s)"
proof -
  have g: "truthy v" "py_le v 0 = Inr False"
    using positive_int_guard [OF i pos] by simp_all
  have f: "find_global s (parent_id (pheap s p)) (products s) = Inl no_in_cart"
    using find_global_no_flag [OF a, of "parent_id (pheap s p)" "products s"] l by simp
  show ?thesis
    unfolding update_product_quantity_def f
    by (simp add: v c g i ne)
qed

text \<open>
  C4. In every state a run can reach, reading \<open>in_cart\<close> of any product raises
  AttributeError, also right after \<open>add_product\<close> has marked a new unit. So the
  listing \<open>product_table\<close> raises whenever the registry is not empty,
  \<open>update_product_quantity\<close> never returns normally, and when its guards pass and
  the registry holds a product of the lineage it raises AttributeError and leaves the
  state as it was.
\<close>

theorem in_cart_cannot_be_read:
  assumes "reachable s"
  shows "get_in_cart (pheap s r) = Inl no_in_cart
       \<and> get_in_cart (pheap (snd (add_product ord p qty s)) r) = Inl no_in_cart
       \<and> (products s \<noteq> [] \<longrightarrow> product_table s = Inl no_in_cart)
       \<and> (\<forall>x. fst (update_product_quantity ord p v s) \<noteq> Inr x)
       \<and> (order_validation ord s = None \<and> contains s p (o_products (oheap s ord))
            \<and> isinstance_int v \<and> 0 < int_of v \<and> int_of v \<noteq> quantity (pheap s p)
            \<and> list_ex (\<lambda>e. parent_id (pheap s e) = parent_id (pheap s p)) (products s)
          \<longrightarrow> update_product_quantity ord p v s = (Inl no_in_cart, s))"
proof -
  have a: "\<forall>r. attr_in_cart (pheap s r) = None"
    using reachable_well_formed [OF assms] by (simp add: well_formed_def)
  have "reachable (exec (Call_add_product ord p qty) s)"
    using assms by (rule reachable_exec)
  then have "well_formed (snd (add_product ord p qty s))"
    using reachable_well_formed by fastforce
  then have b: "attr_in_cart (pheap (snd (add_product ord p qty s)) r) = None"
    by (simp add: well_formed_def)
  have 1: "get_in_cart (pheap s r) = Inl no_in_cart"
    using a by (simp add: get_in_cart_def no_in_cart_def)
  have 2: "get_in_cart (pheap (snd (add_product ord p qty s)) r) = Inl no_in_cart"
    using b by (simp add: get_in_cart_def no_in_cart_def)
  have 3: "products s \<noteq> [] \<longrightarrow> product_table s = Inl no_in_cart"
    by (simp add: product_table_def available_no_flag [OF a])
  have 4: "\<forall>x. fst (update_product_quantity ord p v s) \<noteq> Inr x"
    using update_never_returns [OF a] by blast
  have 5: "order_validation ord s = None \<and> contains s p (o_products (oheap s ord))
            \<and> isinstance_int v \<and> 0 < int_of v \<and> int_of v \<noteq> quantity (pheap s p)
            \<and> list_ex (\<lambda>e. parent_id (pheap s e) = parent_id (pheap s p)) (products s)
          \<longrightarrow> update_product_quantity ord p v s = (Inl no_in_cart, s)"
    using update_raises_at_lookup [OF a] by blast
  from 1 2 3 4 5 show ?thesis by blast
qed

theorem in_cart_cannot_be_read_witness:
  "get_in_cart (pheap cart_of_five 1) = Inl no_in_cart
   \<and> product_table cart_of_five = Inl no_in_cart
   \<and> update_product_quantity 0 1 (PInt 10) cart_of_five = (Inl no_in_cart, cart_of_five)"
proof -
  have h1: "products cart_of_five \<noteq> []"
    and h2: "order_validation 0 cart_of_five = None"
    and h3: "contains cart_of_five 1 (o_products (oheap cart_of_five 0))"
    and h4: "int_of (PInt 10) \<noteq> quantity (pheap cart_of_five 1)"
    and h5: "list_ex (\<lambda>e. parent_id (pheap cart_of_five e) = parent_id (pheap cart_of_five 1))
               (products cart_of_five)"
    by code_simp+
  from in_cart_cannot_be_read [OF reachable_cart_of_five, of 1 0 1 "PInt 10" "PInt 10"]
    h1 h2 h3 h4 h5
  show ?thesis by simp
qed

section \<open>Construction of a product\<close>

lemma title_Nil: "(title s = []) = (s = [])"
  by (cases s) (simp_all add: title_def)

text \<open>
  C5, as amended. In every state a run can reach, \<open>Product(name, category, price, quantity)\<close>
  raises ValueError and registers nothing when the name or the category is empty, when
  the price is falsy or not an int or a float, or when the quantity is falsy or not an
  int. In every other case, so also for a negative price or quantity, it returns a new
  object that was not registered and appends it to the registry. The id of the new
  object is fresh: it is greater than the id of every object of the heap, registered
  or not. Its parent id is its id, its quantity and price are those it was given, and
  every other object is unchanged. For an ASCII name or category the stored text is
  the normalised one.
\<close>

theorem Product_init_checks:
  assumes "reachable s"
  shows "(if nm = [] \<or> cat = [] \<or> \<not> (truthy pr \<and> isinstance_int_float pr)
             \<or> \<not> (truthy qty \<and> isinstance_int qty)
          then (\<exists>m. fst (Product_init nm cat pr qty s) = Inl (ValueError m))
             \<and> products (snd (Product_init nm cat pr qty s)) = products s
             \<and> pheap (snd (Product_init nm cat pr qty s)) = pheap s
          else (\<exists>self. fst (Product_init nm cat pr qty s) = Inr self
             \<and> self \<notin> set (products s)
             \<and> products (snd (Product_init nm cat pr qty s)) = products s @ [self]
             \<and> (\<forall>r. r \<noteq> self \<longrightarrow> pheap (snd (Product_init nm cat pr qty s)) r = pheap s r)
             \<and> (\<forall>r. product_id (pheap s r)
                      < product_id (pheap (snd (Product_init nm cat pr qty s)) self))
             \<and> list_all (\<lambda>r. pheap (snd (Product_init nm cat pr qty s)) r = pheap s r
                            \<and> product_id (pheap s r)
                                \<noteq> product_id (pheap (snd (Product_init nm cat pr qty s)) self))
                  (products s)
             \<and> parent_id (pheap (snd (Product_init nm cat pr qty s)) self)
                 = product_id (pheap (snd (Product_init nm cat pr qty s)) self)
             \<and> quantity (pheap (snd (Product_init nm cat pr qty s)) self) = int_of qty
             \<and> price (pheap (snd (Product_init nm cat pr qty s)) self) = pr
             \<and> (is_ascii nm \<longrightarrow>
                  name (pheap (snd (Product_init nm cat pr qty s)) self) = strip (title (title nm)))
             \<and> (is_ascii cat \<longrightarrow>
                  category (pheap (snd (Product_init nm cat pr qty s)) self) = strip (title cat))))"
proof -
  have w: "well_formed s"
    using assms by (rule reachable_well_formed)
  then have f1: "next_ref s \<notin> set (products s)"
    by (fastforce simp: well_formed_def)
  from w have f2: "\<forall>r. product_id (pheap s r) < next_id s"
    by (simp add: well_formed_def)
  have f3: "\<forall>r \<in> set (products s). r \<noteq> next_ref s \<and> product_id (pheap s r) \<noteq> next_id s"
    by (metis f1 f2 order_less_irrefl)
  show ?thesis
    by (simp add: Product_init_def generate_id_next title_Nil Let_def list_all_iff f1 f2 f3)
qed

theorem Product_init_checks_witness:
  "(\<exists>m. fst (Product_init ''Mouse'' ''Electronics'' (PInt 30) (PInt 0) catalog) = Inl (ValueError m))
   \<and> products (snd (Product_init ''Mouse'' ''Electronics'' (PInt 30) (PInt 0) catalog)) = products catalog
   \<and> (\<exists>self. fst (Product_init ''Keyboard'' ''Electronics'' (PInt 75) (PInt 25) catalog) = Inr self
        \<and> self \<notin> set (products catalog)
        \<and> products (snd (Product_init ''Keyboard'' ''Electronics'' (PInt 75) (PInt 25) catalog))
            = products catalog @ [self]
        \<and> product_id (pheap catalog 0)
            < product_id (pheap (snd (Product_init ''Keyboard'' ''Electronics'' (PInt 75) (PInt 25) catalog)) self)
        \<and> parent_id (pheap (snd (Product_init ''Keyboard'' ''Electronics'' (PInt 75) (PInt 25) catalog)) self)
            = product_id (pheap (snd (Product_init ''Keyboard'' ''Electronics'' (PInt 75) (PInt 25) catalog)) self)
        \<and> quantity (pheap (snd (Product_init ''Keyboard'' ''Electronics'' (PInt 75) (PInt 25) catalog)) self) = 25
        \<and> name (pheap (snd (Product_init ''Keyboard'' ''Electronics'' (PInt 75) (PInt 25) catalog)) self)
            = strip (title (title ''Keyboard'')))"
proof -
  have a: "is_ascii ''Keyboard''"
    by code_simp
  from Product_init_checks [OF reachable_catalog, of "''Mouse''" "''Electronics''" "PInt 30" "PInt 0"]
  have 1: "(\<exists>m. fst (Product_init ''Mouse'' ''Electronics'' (PInt 30) (PInt 0) catalog) = Inl (ValueError m))
     \<and> products (snd (Product_init ''Mouse'' ''Electronics'' (PInt 30) (PInt 0) catalog)) = products catalog"
    by simp
  from Product_init_checks [OF reachable_catalog, of "''Keyboard''" "''Electronics''" "PInt 75" "PInt 25"] a
  have 2: "\<exists>self. fst (Product_init ''Keyboard'' ''Electronics'' (PInt 75) (PInt 25) catalog) = Inr self
        \<and> self \<notin> set (products catalog)
        \<and> products (snd (Product_init ''Keyboard'' ''Electronics'' (PInt 75) (PInt 25) catalog))
            = products catalog @ [self]
        \<and> product_id (pheap catalog 0)
            < product_id (pheap (snd (Product_init ''Keyboard'' ''Electronics'' (PInt 75) (PInt 25) catalog)) self)
        \<and> parent_id (pheap (snd (Product_init ''Keyboard'' ''Electronics'' (PInt 75) (PInt 25) catalog)) self)
            = product_id (pheap (snd (Product_init ''Keyboard'' ''Electronics'' (PInt 75) (PInt 25) catalog)) self)
        \<and> quantity (pheap (snd (Product_init ''Keyboard'' ''Electronics'' (PInt 75) (PInt 25) catalog)) self) = 25
        \<and> name (pheap (snd (Product_init ''Keyboard'' ''Electronics'' (PInt 75) (PInt 25) catalog)) self)
            = strip (title (title ''Keyboard''))"
    by simp blast
  from 1 2 show ?thesis by blast
qed

text \<open>
  The claim as stated fails: a negative quantity and a negative price are accepted.
\<close>

theorem Product_init_accepts_negative:
  "fst (Product_init ''Mouse'' ''Electronics'' (PInt 30) (PInt (- 3)) init) = Inr 0
   \<and> quantity (pheap (snd (Product_init ''Mouse'' ''Electronics'' (PInt 30) (PInt (- 3)) init)) 0) = - 3
   \<and> products (snd (Product_init ''Mouse'' ''Electronics'' (PInt 30) (PInt (- 3)) init)) = [0]
   \<and> fst (Product_init ''Mouse'' ''Electronics'' (PInt (- 30)) (PInt 50) init) = Inr 0
   \<and> price (pheap (snd (Product_init ''Mouse'' ''Electronics'' (PInt (- 30)) (PInt 50) init)) 0)
       = PInt (- 30)"
  by code_simp

section \<open>Positive quantities\<close>

text \<open>
  Each operation keeps the quantities of the registered products positive, as long as
  it is not handed a negative integer as a quantity.
\<close>

lemma positive_print_line: "positive_quantities (print_line l s) = positive_quantities s"
  by (simp add: positive_quantities_def print_line_def)

lemma positive_oheap: "positive_quantities (s\<lparr>oheap := h\<rparr>) = positive_quantities s"
  by (simp add: positive_quantities_def)

lemma positive_orders: "positive_quantities (s\<lparr>orders := xs\<rparr>) = positive_quantities s"
  by (simp add: positive_quantities_def)

lemma positive_set_quantity:
  "set_quantity r v s = (res, s') \<Longrightarrow> positive_quantities s \<Longrightarrow> 0 < int_of v
   \<Longrightarrow> positive_quantities s'"
  by (auto simp: set_quantity_def positive_quantities_def list_all_iff split: if_splits)

lemma positive_set_in_cart:
  "set_in_cart r v s = (res, s') \<Longrightarrow> positive_quantities s \<Longrightarrow> positive_quantities s'"
  by (auto simp: set_in_cart_def positive_quantities_def list_all_iff split: pyval.splits)

lemma positive_delete_product:
  "delete_product p s = (res, s') \<Longrightarrow> positive_quantities s \<Longrightarrow> positive_quantities s'"
  by (auto simp: delete_product_def positive_quantities_def list_all_iff
      split: if_splits option.splits) (meson set_pop_subset)+

lemma positive_add_op:
  "add_op self other s = (res, s') \<Longrightarrow> positive_quantities s \<Longrightarrow> isinstance_int other
   \<Longrightarrow> 0 \<le> int_of other \<Longrightarrow> positive_quantities s'"
proof -
  assume a: "add_op self other s = (res, s')" and p: "positive_quantities s"
    and i: "isinstance_int other" and n: "0 \<le> int_of other"
  from a i have s': "s' = s\<lparr>pheap := (pheap s)(self := (pheap s self)
                  \<lparr>quantity := quantity (pheap s self) + int_of other\<rparr>)\<rparr>"
    by (cases other) (auto simp: add_op_def)
  have "self \<in> set (products s) \<Longrightarrow> 0 < quantity (pheap s self) + int_of other"
    using p n by (fastforce simp: positive_quantities_def list_all_iff)
  with p show ?thesis
    by (auto simp: s' positive_quantities_def list_all_iff)
qed

lemma positive_sub_amount:
  "sub_amount self n s = (res, s') \<Longrightarrow> positive_quantities s \<Longrightarrow> positive_quantities s'"
  by (auto simp: sub_amount_def split: if_splits prod.splits sum.splits
      dest: positive_delete_product positive_set_quantity)

lemma positive_sub_op:
  "sub_op self other s = (res, s') \<Longrightarrow> positive_quantities s \<Longrightarrow> positive_quantities s'"
  by (auto simp: sub_op_def split: if_splits pyval.splits dest: positive_sub_amount)

lemma positive_remove_inventory:
  "remove_inventory self v s = (res, s') \<Longrightarrow> positive_quantities s \<Longrightarrow> positive_quantities s'"
  by (auto simp: remove_inventory_def split: if_splits dest: positive_sub_op)

lemma positive_add_inventory:
  assumes "add_inventory self v s = (res, s')" and "positive_quantities s" and "\<not> negative_int v"
  shows "positive_quantities s'"
proof (cases "isinstance_int v")
  case True
  with assms show ?thesis
    by (auto simp: add_inventory_def negative_int_def split: if_splits dest: positive_add_op)
next
  case False
  with assms show ?thesis
    by (cases v) (auto simp: add_inventory_def add_op_def split: if_splits sum.splits)
qed

lemma positive_Product_init:
  "Product_init nm cat pr qty s = (res, s') \<Longrightarrow> positive_quantities s \<Longrightarrow> \<not> negative_int qty
   \<Longrightarrow> positive_quantities s'"
  by (cases qty)
     (auto simp: Product_init_def generate_id_def positive_quantities_def list_all_iff Let_def
        negative_int_def split: if_splits option.splits)

lemma positive_parent_id:
  "positive_quantities (s\<lparr>pheap := (pheap s)(n := (pheap s n)\<lparr>parent_id := i\<rparr>)\<rparr>)
     = positive_quantities s"
  by (auto simp: positive_quantities_def list_all_iff)

lemma positive_new_try:
  "new_try self qty upd s = (res, s') \<Longrightarrow> positive_quantities s \<Longrightarrow> \<not> negative_int qty
   \<Longrightarrow> positive_quantities s'"
  by (auto simp: new_try_def Let_def positive_parent_id split: if_splits sum.splits prod.splits
      dest!: positive_Product_init dest: positive_remove_inventory)

lemma positive_new:
  "new self qty upd s = (res, s') \<Longrightarrow> positive_quantities s \<Longrightarrow> \<not> negative_int qty
   \<Longrightarrow> positive_quantities s'"
  by (auto simp: new_def positive_print_line split: prod.splits sum.splits pyerr.splits
      dest: positive_new_try)

lemma positive_add_product_try:
  "add_product_try self p qty s = (res, s') \<Longrightarrow> positive_quantities s \<Longrightarrow> \<not> negative_int qty
   \<Longrightarrow> positive_quantities s'"
  by (auto simp: add_product_try_def positive_oheap split: prod.splits sum.splits option.splits
      dest: positive_new positive_set_in_cart)

lemma positive_add_product:
  "add_product self p qty s = (res, s') \<Longrightarrow> positive_quantities s \<Longrightarrow> \<not> negative_int qty
   \<Longrightarrow> positive_quantities s'"
  by (auto simp: add_product_def positive_print_line
      split: prod.splits sum.splits option.splits if_splits pyerr.splits
      dest: positive_add_product_try)

lemma positive_remove_product:
  "remove_product self p s = (res, s') \<Longrightarrow> positive_quantities s \<Longrightarrow> positive_quantities s'"
  by (auto simp: remove_product_def positive_oheap
      split: prod.splits sum.splits option.splits if_splits
      dest: positive_set_in_cart)

lemma int_guard_positive: "isinstance_int v \<Longrightarrow> py_le v 0 = Inr False \<Longrightarrow> 0 < int_of v"
  by (cases v) (auto split: if_splits)

lemma positive_update_product_quantity:
  "update_product_quantity self p v s = (res, s') \<Longrightarrow> positive_quantities s
   \<Longrightarrow> positive_quantities s'"
  by (auto simp: update_product_quantity_def Let_def negative_int_def
      split: prod.splits sum.splits option.splits if_splits
      dest!: positive_set_quantity int_guard_positive
      dest: positive_remove_inventory positive_add_inventory)

lemma positive_clear_products:
  "clear_products self s = (res, s') \<Longrightarrow> positive_quantities s \<Longrightarrow> positive_quantities s'"
  by (auto simp: clear_products_def positive_oheap split: option.splits)

lemma positive_delete:
  "delete self s = (res, s') \<Longrightarrow> positive_quantities s \<Longrightarrow> positive_quantities s'"
  by (auto simp: delete_def positive_orders split: option.splits)

lemma positive_checkout:
  "checkout today self s = (res, s') \<Longrightarrow> positive_quantities s \<Longrightarrow> positive_quantities s'"
  by (auto simp: checkout_def total_price_def positive_oheap positive_print_line Let_def
      split: if_splits)

lemma positive_add_initial:
  "add_initial self items s = (res, s') \<Longrightarrow> positive_quantities s
   \<Longrightarrow> \<not> list_ex negative_item items \<Longrightarrow> positive_quantities s'"
proof (induction self items s rule: add_initial.induct)
  case (2 self p q items s)
  then show ?case
    by (auto split: if_splits prod.splits sum.splits dest: positive_add_product)
next
  case (3 self p items s)
  have "\<not> negative_int (PInt 1)" by (simp add: negative_int_def)
  with 3 show ?case
    by (auto split: prod.splits sum.splits dest: positive_add_product)
qed simp_all

lemma positive_Order_init:
  assumes a: "Order_init today items s = (res, s')" and p: "positive_quantities s"
    and n: "\<not> list_ex negative_item items"
  shows "positive_quantities s'"
proof -
  obtain i s1 where o: "order_id s = (i, s1)" by (cases "order_id s")
  then have p1: "positive_quantities s1"
    using p by (auto simp: order_id_def positive_quantities_def split: option.splits)
  define s2 where "s2 = s1\<lparr>oheap := (oheap s1)(next_oref s1 :=
       \<lparr>o_products = [], o_id = i, created_date = today, checkout_date = None,
        checkout_status = False\<rparr>), next_oref := Suc (next_oref s1),
       orders := orders s1 @ [next_oref s1]\<rparr>"
  have p2: "positive_quantities s2"
    using p1 by (simp add: s2_def positive_quantities_def)
  from a o have "snd (add_initial (next_oref s1) items s2) = s'"
    by (auto simp: Order_init_def Let_def s2_def split: prod.splits sum.splits)
  with p2 n show ?thesis
    using positive_add_initial [of "next_oref s1" items s2] by (metis prod.collapse)
qed

lemma positive_exec:
  "positive_quantities s \<Longrightarrow> \<not> negative_quantity_arg c \<Longrightarrow> positive_quantities (exec c s)"
  by (cases c)
     (auto intro: positive_Product_init positive_new positive_add_inventory
        positive_remove_inventory positive_delete_product positive_Order_init
        positive_add_product positive_remove_product positive_update_product_quantity
        positive_clear_products positive_delete positive_checkout prod.collapse [symmetric])

text \<open>
  In a well-formed state the registry lists products by increasing id and a parent id
  is at most the id, so no entry before a product whose parent id is its own id is
  equal to it under \<open>__eq__\<close>: \<open>list.index\<close> finds the product itself.
\<close>

lemma contains_member: "x \<in> set xs \<Longrightarrow> contains s x xs"
  by (auto simp: contains_def matches_def list_ex_iff)

lemma first_index_member:
  "x \<in> set xs \<Longrightarrow> \<exists>i. first_index (\<lambda>e. e = x) xs = Some i"
  by (induction xs) auto

lemma pop_first_index:
  "distinct xs \<Longrightarrow> first_index (\<lambda>e. e = x) xs = Some i \<Longrightarrow> pop i xs = remove1 x xs"
proof (induction xs arbitrary: i)
  case Nil
  then show ?case by simp
next
  case (Cons a xs)
  then show ?case
    by (auto simp: pop_Cons split: if_splits nat.splits)
qed

lemma sorted_ids_distinct:
  "sorted_wrt (\<lambda>a b. (f a :: int) < f b) xs \<Longrightarrow> distinct xs"
  by (induction xs) auto

lemma first_index_lineage_head:
  assumes "sorted_wrt (\<lambda>a b. (f a :: int) < f b) xs" and "x \<in> set xs"
    and "\<And>e. g e \<le> f e" and "g x = f x"
  shows "first_index (\<lambda>e. e = x \<or> f e = f x \<or> g e = g x) xs = first_index (\<lambda>e. e = x) xs"
  using assms(1,2)
proof (induction xs)
  case Nil
  then show ?case by simp
next
  case (Cons a xs)
  show ?case
  proof (cases "a = x")
    case True
    then show ?thesis by simp
  next
    case False
    with Cons.prems have x: "x \<in> set xs" and lt: "f a < f x"
      by auto
    have "g a \<le> f a" by (rule assms(3))
    with lt assms(4) have "f a \<noteq> f x" and "g a \<noteq> g x"
      by auto
    with False Cons.IH Cons.prems x show ?thesis
      by simp
  qed
qed

lemma catalog_product_index_finds_self:
  assumes w: "well_formed s" and m: "p \<in> set (products s)"
    and r: "parent_id (pheap s p) = product_id (pheap s p)"
  shows "distinct (products s) \<and> index_finds_self s p"
proof -
  have o: "sorted_wrt (\<lambda>a b. product_id (pheap s a) < product_id (pheap s b)) (products s)"
    and q: "\<And>e. parent_id (pheap s e) \<le> product_id (pheap s e)"
    using w by (simp_all add: well_formed_def)
  have "matches s p = (\<lambda>e. e = p \<or> product_id (pheap s e) = product_id (pheap s p)
                              \<or> parent_id (pheap s e) = parent_id (pheap s p))"
    by (simp add: matches_def product_eq_def fun_eq_iff)
  moreover have "first_index (\<lambda>e. e = p \<or> product_id (pheap s e) = product_id (pheap s p)
                              \<or> parent_id (pheap s e) = parent_id (pheap s p)) (products s)
               = first_index (\<lambda>e. e = p) (products s)"
    using o m q r
    by (rule first_index_lineage_head [of "\<lambda>e. product_id (pheap s e)" _ _ "\<lambda>e. parent_id (pheap s e)"])
  ultimately have "index_finds_self s p"
    by (simp add: index_finds_self_def index_def)
  with o show ?thesis
    by (simp add: sorted_ids_distinct)
qed

lemma remove_inventory_whole:
  assumes q: "0 < quantity (pheap s self)" and m: "self \<in> set (products s)"
    and d: "distinct (products s)" and f: "index_finds_self s self"
  shows "fst (remove_inventory self (PInt (quantity (pheap s self))) s) = Inr None
       \<and> pheap (snd (remove_inventory self (PInt (quantity (pheap s self))) s)) = pheap s
       \<and> products (snd (remove_inventory self (PInt (quantity (pheap s self))) s))
           = remove1 self (products s)
       \<and> self \<notin> set (products (snd (remove_inventory self (PInt (quantity (pheap s self))) s)))"
proof -
  have c: "contains s self (products s)"
    using m by (rule contains_member)
  obtain i where i: "first_index (\<lambda>e. e = self) (products s) = Some i"
    using first_index_member [OF m] by blast
  then have ix: "index s self (products s) = Some i"
    using f by (simp add: index_finds_self_def)
  have p: "pop i (products s) = remove1 self (products s)"
    using d i by (rule pop_first_index)
  have "self \<notin> set (remove1 self (products s))"
    using d by simp
  then show ?thesis
    using q c ix p
    by (simp add: remove_inventory_def sub_op_def sub_amount_def delete_product_def)
qed

text \<open>
  C1, as amended. No product is registered in the fresh state. Every operation
  (construction, split, \<open>add_inventory\<close>, \<open>remove_inventory\<close>,
  \<open>delete_product\<close>, and every operation of an order) keeps the quantity of
  every registered product strictly positive, provided that the call passes no
  negative integer as a quantity. A registered product whose whole quantity is removed
  by \<open>remove_inventory\<close> is removed from the registry, and no quantity is written,
  whenever the registry lists no object twice and \<open>Product.products.index\<close> finds
  the product itself. In every state a run can reach the registry lists no object
  twice, and \<open>index\<close> finds every registered product whose parent id is its own
  id.
\<close>

theorem positive_quantities_invariant:
  "positive_quantities init
   \<and> (positive_quantities s \<and> \<not> negative_quantity_arg c \<longrightarrow> positive_quantities (exec c s))
   \<and> (0 < quantity (pheap s self) \<and> self \<in> set (products s) \<and> distinct (products s)
        \<and> index_finds_self s self \<longrightarrow>
        fst (remove_inventory self (PInt (quantity (pheap s self))) s) = Inr None
        \<and> pheap (snd (remove_inventory self (PInt (quantity (pheap s self))) s)) = pheap s
        \<and> products (snd (remove_inventory self (PInt (quantity (pheap s self))) s))
            = remove1 self (products s)
        \<and> self \<notin> set (products (snd (remove_inventory self (PInt (quantity (pheap s self))) s))))
   \<and> (reachable s \<longrightarrow> distinct (products s))
   \<and> (reachable s \<and> self \<in> set (products s)
        \<and> parent_id (pheap s self) = product_id (pheap s self) \<longrightarrow>
        index_finds_self s self)"
proof -
  have 1: "positive_quantities init"
    by (simp add: positive_quantities_def init_def)
  have 4: "reachable s \<longrightarrow> distinct (products s)"
    using reachable_well_formed [of s]
    by (auto simp: well_formed_def dest: sorted_ids_distinct)
  have 5: "reachable s \<and> self \<in> set (products s)
        \<and> parent_id (pheap s self) = product_id (pheap s self) \<longrightarrow>
        index_finds_self s self"
    using catalog_product_index_finds_self [of s self] reachable_well_formed [of s] by blast
  from 1 4 5 show ?thesis
    using positive_exec [of s c] remove_inventory_whole [of s self] by blast
qed

theorem positive_quantities_invariant_witness:
  "positive_quantities cart_of_five
   \<and> positive_quantities (exec (Call_new 0 (PInt 45) True) cart_of_five)
   \<and> distinct (products cart_of_five) \<and> index_finds_self cart_of_five 0
   \<and> fst (remove_inventory 0 (PInt 45) cart_of_five) = Inr None
   \<and> products (snd (remove_inventory 0 (PInt 45) cart_of_five)) = [1]
   \<and> 0 \<notin> set (products (snd (remove_inventory 0 (PInt 45) cart_of_five)))"
proof -
  have h1: "positive_quantities cart_of_five"
    and h2: "0 \<in> set (products cart_of_five)"
    and h3: "quantity (pheap cart_of_five 0) = 45"
    and h4: "products cart_of_five = [0, 1]"
    and h6: "parent_id (pheap cart_of_five 0) = product_id (pheap cart_of_five 0)"
    by code_simp+
  have h5: "\<not> negative_quantity_arg (Call_new 0 (PInt 45) True)"
    by (simp add: negative_int_def)
  from positive_quantities_invariant [of cart_of_five "Call_new 0 (PInt 45) True" 0]
    h1 h2 h3 h4 h5 h6 reachable_cart_of_five
  show ?thesis by simp
qed

text \<open>
  The claim as stated fails at each point the amendment leaves out: the constructor
  registers a product of quantity -3; \<open>add_inventory(-50)\<close> leaves a registered
  product at 0; a split, \<open>add_product\<close> and the constructor of an order with
  quantity -2 register a unit of quantity -2; and removing the whole quantity of the
  cart line 1, which \<open>index\<close> does not find first, leaves it registered.
\<close>

theorem nonpositive_quantities_reached:
  "positive_quantities init
   \<and> \<not> positive_quantities
         (exec (Call_Product ''Mouse'' ''Electronics'' (PInt 30) (PInt (- 3))) init)
   \<and> positive_quantities catalog
   \<and> \<not> positive_quantities (exec (Call_add_inventory 0 (PInt (- 50))) catalog)
   \<and> \<not> positive_quantities (exec (Call_new 0 (PInt (- 2)) True) catalog)
   \<and> positive_quantities open_order
   \<and> \<not> positive_quantities (exec (Call_add_product 0 0 (PInt (- 2))) open_order)
   \<and> \<not> positive_quantities (exec (Call_Order ''2026-11-04'' [ItemPair 0 (PInt (- 2))]) catalog)
   \<and> products cart_of_five = [0, 1] \<and> quantity (pheap cart_of_five 1) = 5
   \<and> \<not> index_finds_self cart_of_five 1
   \<and> fst (remove_inventory 1 (PInt 5) cart_of_five) = Inr None
   \<and> products (snd (remove_inventory 1 (PInt 5) cart_of_five)) = [1]
   \<and> 1 \<in> set (products (snd (remove_inventory 1 (PInt 5) cart_of_five)))"
  by code_simp

section \<open>Where the code departs from the specification\<close>

text \<open>
  C6. \<open>add_inventory\<close> is specified to fail on a delta that is not a strictly
  positive integer. In the catalog of 50 mice, \<open>add_inventory(-2)\<close> returns the
  product with quantity 48, \<open>add_inventory(0)\<close> returns normally, and
  \<open>add_inventory(-50)\<close> leaves the product registered with quantity 0.
\<close>

theorem add_inventory_accepts_nonpositive_delta:
  "products catalog = [0] \<and> quantity (pheap catalog 0) = 50
   \<and> fst (add_inventory 0 (PInt (- 2)) catalog) = Inr 0
   \<and> quantity (pheap (snd (add_inventory 0 (PInt (- 2)) catalog)) 0) = 48
   \<and> fst (add_inventory 0 (PInt 0) catalog) = Inr 0
   \<and> fst (add_inventory 0 (PInt (- 50)) catalog) = Inr 0
   \<and> quantity (pheap (snd (add_inventory 0 (PInt (- 50)) catalog)) 0) = 0
   \<and> products (snd (add_inventory 0 (PInt (- 50)) catalog)) = [0]"
  by code_simp

text \<open>
  C3. In the scenario (cart line 1 of quantity 5, catalog sibling 0 of quantity 45 and
  of the same parent id), \<open>update_product_quantity(product, 10)\<close> is specified to
  succeed with quantities 10 and 40. It raises AttributeError at the lookup of the
  sibling and the quantities stay 5 and 45; the request for 46 raises the same
  AttributeError, not the stock error.
\<close>

theorem update_product_quantity_scenario_raises:
  "o_products (oheap cart_of_five 0) = [1] \<and> products cart_of_five = [0, 1]
   \<and> quantity (pheap cart_of_five 1) = 5 \<and> quantity (pheap cart_of_five 0) = 45
   \<and> parent_id (pheap cart_of_five 1) = product_id (pheap cart_of_five 0)
   \<and> parent_id (pheap cart_of_five 0) = product_id (pheap cart_of_five 0)
   \<and> fst (update_product_quantity 0 1 (PInt 10) cart_of_five) = Inl no_in_cart
   \<and> quantity (pheap (snd (update_product_quantity 0 1 (PInt 10) cart_of_five)) 1) = 5
   \<and> quantity (pheap (snd (update_product_quantity 0 1 (PInt 10) cart_of_five)) 0) = 45
   \<and> fst (update_product_quantity 0 1 (PInt 46) cart_of_five) = Inl no_in_cart"
  by code_simp

text \<open>
  C2. \<open>add_product\<close> is specified to leave the registry unchanged when the split
  fails. With quantity -2 on the catalog of 50 mice the split fails and
  \<open>add_product\<close> reports the error and returns \<open>None\<close>; the product list of
  the order and the quantity of the source are unchanged, but the registry has gained
  a unit of quantity -2.
\<close>

theorem add_product_failed_split_registers_unit:
  "products open_order = [0] \<and> quantity (pheap open_order 0) = 50
   \<and> o_products (oheap open_order 0) = []
   \<and> fst (new 0 (PInt (- 2)) True open_order) = Inr None
   \<and> fst (add_product 0 0 (PInt (- 2)) open_order) = Inr None
   \<and> printed (snd (add_product 0 0 (PInt (- 2)) open_order))
       = [''New Product Error: Invalid quantity'', ''Product Addition Error: Unable to add product'']
   \<and> o_products (oheap (snd (add_product 0 0 (PInt (- 2)) open_order)) 0) = []
   \<and> quantity (pheap (snd (add_product 0 0 (PInt (- 2)) open_order)) 0) = 50
   \<and> products (snd (add_product 0 0 (PInt (- 2)) open_order)) = [0, 1]
   \<and> quantity (pheap (snd (add_product 0 0 (PInt (- 2)) open_order)) 1) = - 2"
  by code_simp

text \<open>
  C8. A split of the whole quantity is specified to remove the source from the
  registry. Splitting the whole cart line 1 (quantity 5) of the scenario returns the
  new unit 2, whose parent id is the id of the source, but the registry loses the
  catalog product 0: the source stays registered with quantity 5.
\<close>

theorem full_split_of_cart_unit_removes_catalog_product:
  "products cart_of_five = [0, 1] \<and> quantity (pheap cart_of_five 1) = 5
   \<and> fst (new 1 (PInt 5) True cart_of_five) = Inr (Some 2)
   \<and> products (snd (new 1 (PInt 5) True cart_of_five)) = [1, 2]
   \<and> quantity (pheap (snd (new 1 (PInt 5) True cart_of_five)) 1) = 5
   \<and> parent_id (pheap (snd (new 1 (PInt 5) True cart_of_five)) 2)
       = product_id (pheap cart_of_five 1)"
  by code_simp

end
